theory Spec2Isabelle
  imports Complex_Main "HOL-Library.Sublist"
begin

section \<open>Values, documents and the external services\<close>

text \<open>
  The values that travel through \<^verbatim>\<open>server.js\<close>: what \<^verbatim>\<open>express.json()\<close> parses out of
  a request body and what a document of the store holds. A number is the parsed
  double; the handlers only ever test it against zero. \<open>JTimestamp\<close> is the
  timestamp object that the store puts where a write asked for the server's time.
  A value that may be \<^verbatim>\<open>undefined\<close> is a \<open>jvalue option\<close>; an absent field of an
  object reads as \<open>None\<close>.
\<close>

datatype jvalue =
    JNull
  | JBool bool
  | JNum rat
  | JStr string
  | JArr "jvalue list"
  | JObj "(string \<times> jvalue) list"
  | JTimestamp nat

text \<open>JavaScript truthiness, as used by \<^verbatim>\<open>!x\<close>, \<^verbatim>\<open>x || y\<close> and \<^verbatim>\<open>x && y\<close>.\<close>

fun truthy_val :: "jvalue \<Rightarrow> bool" where
  "truthy_val JNull = False"
| "truthy_val (JBool b) = b"
| "truthy_val (JNum n) = (n \<noteq> 0)"
| "truthy_val (JStr s) = (s \<noteq> [])"
| "truthy_val (JArr xs) = True"
| "truthy_val (JObj kvs) = True"
| "truthy_val (JTimestamp t) = True"

fun truthy :: "jvalue option \<Rightarrow> bool" where
  "truthy None = False"
| "truthy (Some v) = truthy_val v"

text \<open>\<^verbatim>\<open>x || null\<close>\<close>

fun or_null :: "jvalue option \<Rightarrow> jvalue" where
  "or_null None = JNull"
| "or_null (Some v) = (if truthy_val v then v else JNull)"

type_synonym doc = "string \<rightharpoonup> jvalue"

text \<open>
  The data handed to a write: a literal value, or the sentinel
  \<^verbatim>\<open>admin.firestore.FieldValue.serverTimestamp()\<close>.
\<close>

datatype wvalue = Lit jvalue | ServerTimestamp

type_synonym wdoc = "string \<rightharpoonup> wvalue"

text \<open>
  An object literal \<^verbatim>\<open>{ k1: v1, k2: v2, ... }\<close> whose values may be \<^verbatim>\<open>undefined\<close>;
  a field whose value is undefined reads as absent.
\<close>

definition obj :: "(string \<times> wvalue option) list \<Rightarrow> wdoc" where
  "obj kvs = (\<lambda>f. case map_of kvs f of None \<Rightarrow> None | Some v \<Rightarrow> v)"

definition lit :: "jvalue option \<Rightarrow> wvalue option" where
  "lit v = map_option Lit v"

text \<open>An error thrown by a client library: its \<^verbatim>\<open>code\<close> and its \<^verbatim>\<open>message\<close>.\<close>

datatype error = Error (err_code: string) (err_message: string)

text \<open>
  The collections under \<^verbatim>\<open>artifacts/{APP_ID}\<close>: \<^verbatim>\<open>users\<close>,
  \<^verbatim>\<open>users/{uid}/loanApplications\<close> and \<^verbatim>\<open>public/data/allApplications\<close>.
  A document is addressed by its collection and its id.
\<close>

datatype coll = Users | LoanApplications string | AllApplications

text \<open>The calls a handler makes to the identity provider and to the store.\<close>

datatype call =
    CreateUser
  | VerifyIdToken string
  | AddDoc coll
  | SetDoc coll string
  | UpdateDoc coll string
  | GetDoc coll string

record account =
  acc_uid :: string
  acc_email :: "jvalue option"
  acc_password :: "jvalue option"
  acc_phoneNumber :: "jvalue option"

text \<open>
  Everything outside the process: the identity provider's accounts, the documents of
  the store, and the calls made so far, in the order they were made.
\<close>

record world =
  accounts :: "account list"
  docs :: "coll \<times> string \<rightharpoonup> doc"
  trace :: "call list"

record decoded =
  uid :: string

text \<open>
  What the handlers do not decide: whether the identity provider accepts a signup
  or a token, whether a call to the store is refused (transport, permissions, data
  the client library rejects, such as a field that is undefined under its default
  settings), the id that \<^verbatim>\<open>add\<close> generates and the server's time at a write. Each
  may depend on everything that happened before.
\<close>

record env =
  createUser_result :: "jvalue option \<Rightarrow> jvalue option \<Rightarrow> jvalue option \<Rightarrow> world \<Rightarrow> error + string"
  verifyIdToken_result :: "string \<Rightarrow> world \<Rightarrow> error + decoded"
  fault :: "call \<Rightarrow> world \<Rightarrow> error option"
  autoId :: "world \<Rightarrow> string"
  serverTime :: "world \<Rightarrow> nat"

definition record_call :: "call \<Rightarrow> world \<Rightarrow> world" where
  "record_call c w = w\<lparr>trace := trace w @ [c]\<rparr>"

subsection \<open>The identity provider\<close>

text \<open>\<^verbatim>\<open>auth.createUser({ email, password, phoneNumber })\<close>\<close>

definition auth_createUser ::
  "env \<Rightarrow> jvalue option \<Rightarrow> jvalue option \<Rightarrow> jvalue option \<Rightarrow> world \<Rightarrow> (error + string) \<times> world" where
  "auth_createUser e email password phoneNumber w =
     (let w1 = record_call CreateUser w in
      case createUser_result e email password phoneNumber w of
        Inl err \<Rightarrow> (Inl err, w1)
      | Inr u \<Rightarrow>
          (Inr u, w1\<lparr>accounts := accounts w1 @
             [\<lparr>acc_uid = u, acc_email = email, acc_password = password,
               acc_phoneNumber = phoneNumber\<rparr>]\<rparr>))"

text \<open>\<^verbatim>\<open>auth.verifyIdToken(idToken)\<close>\<close>

definition auth_verifyIdToken :: "env \<Rightarrow> string \<Rightarrow> world \<Rightarrow> (error + decoded) \<times> world" where
  "auth_verifyIdToken e t w = (verifyIdToken_result e t w, record_call (VerifyIdToken t) w)"

subsection \<open>The document store\<close>

text \<open>A write replaces each server-timestamp sentinel by the server's time.\<close>

definition resolve :: "nat \<Rightarrow> wdoc \<Rightarrow> doc" where
  "resolve t d =
     (\<lambda>f. case d f of
             None \<Rightarrow> None
           | Some ServerTimestamp \<Rightarrow> Some (JTimestamp t)
           | Some (Lit v) \<Rightarrow> Some v)"

definition not_found :: error where
  "not_found = Error ''not-found'' ''No document to update''"

definition already_exists :: error where
  "already_exists = Error ''already-exists'' ''Document already exists''"

text \<open>\<^verbatim>\<open>ref.set(data)\<close>: creates the document or replaces it.\<close>

definition fs_set :: "env \<Rightarrow> coll \<Rightarrow> string \<Rightarrow> wdoc \<Rightarrow> world \<Rightarrow> (error + unit) \<times> world" where
  "fs_set e c i d w =
     (let w1 = record_call (SetDoc c i) w in
      case fault e (SetDoc c i) w of
        Some err \<Rightarrow> (Inl err, w1)
      | None \<Rightarrow> (Inr (), w1\<lparr>docs := (docs w1)((c, i) \<mapsto> resolve (serverTime e w) d)\<rparr>))"

text \<open>
  \<^verbatim>\<open>ref.update(data)\<close>: changes the given fields of a document that exists, and fails
  when there is none.
\<close>

definition fs_update :: "env \<Rightarrow> coll \<Rightarrow> string \<Rightarrow> wdoc \<Rightarrow> world \<Rightarrow> (error + unit) \<times> world" where
  "fs_update e c i d w =
     (let w1 = record_call (UpdateDoc c i) w in
      case fault e (UpdateDoc c i) w of
        Some err \<Rightarrow> (Inl err, w1)
      | None \<Rightarrow>
          (case docs w (c, i) of
             None \<Rightarrow> (Inl not_found, w1)
           | Some old \<Rightarrow>
               (Inr (), w1\<lparr>docs := (docs w1)((c, i) \<mapsto> old ++ resolve (serverTime e w) d)\<rparr>)))"

text \<open>\<^verbatim>\<open>(await ref.get()).data()\<close>: the document, or undefined when there is none.\<close>

definition fs_get :: "env \<Rightarrow> coll \<Rightarrow> string \<Rightarrow> world \<Rightarrow> (error + doc option) \<times> world" where
  "fs_get e c i w =
     (let w1 = record_call (GetDoc c i) w in
      case fault e (GetDoc c i) w of
        Some err \<Rightarrow> (Inl err, w1)
      | None \<Rightarrow> (Inr (docs w (c, i)), w1))"

text \<open>
  \<^verbatim>\<open>collection.add(data)\<close>: a document under a generated id, created only if no
  document has that id; the result is the new reference's id.
\<close>

definition fs_add :: "env \<Rightarrow> coll \<Rightarrow> wdoc \<Rightarrow> world \<Rightarrow> (error + string) \<times> world" where
  "fs_add e c d w =
     (let w1 = record_call (AddDoc c) w in
      case fault e (AddDoc c) w of
        Some err \<Rightarrow> (Inl err, w1)
      | None \<Rightarrow>
          (let i = autoId e w in
           case docs w (c, i) of
             Some old \<Rightarrow> (Inl already_exists, w1)
           | None \<Rightarrow> (Inr i, w1\<lparr>docs := (docs w1)((c, i) \<mapsto> resolve (serverTime e w) d)\<rparr>)))"

text \<open>
  \<^verbatim>\<open>.doc(x)\<close> on a value read back from a document: the client library throws unless
  \<open>x\<close> is a non-empty string.
\<close>

definition invalid_path :: error where
  "invalid_path = Error ''invalid-argument'' ''Path must be a non-empty string''"

fun doc_id :: "jvalue option \<Rightarrow> error + string" where
  "doc_id (Some (JStr s)) = (if s = [] then Inl invalid_path else Inr s)"
| "doc_id v = Inl invalid_path"

section \<open>Requests and responses\<close>

record request =
  authorization :: "string option"
  body :: "string \<rightharpoonup> jvalue"
  param_id :: string

text \<open>The JSON bodies that the handlers send.\<close>

datatype payload =
    Message string
  | MessageUid string string
  | MessageApplicationId string string
  | StatusUpdated string "jvalue option"
  | ErrorDetails string string

record response =
  res_status :: nat
  res_json :: payload

definition json :: "nat \<Rightarrow> payload \<Rightarrow> response" where
  "json s p = \<lparr>res_status = s, res_json = p\<rparr>"

text \<open>
  \<^verbatim>\<open>res.status(500).json({ error: message, details: error.message })\<close>; every call
  passes its own \<open>message\<close>, so the default of the parameter is never used.
\<close>

definition handleError :: "error \<Rightarrow> string \<Rightarrow> response" where
  "handleError err message = json 500 (ErrorDetails message (err_message err))"

section \<open>The handlers\<close>

subsection \<open>Signup\<close>

definition signup :: "env \<Rightarrow> request \<Rightarrow> world \<Rightarrow> response \<times> world" where
  "signup e req w =
     (let email = body req ''email''; password = body req ''password'';
          mobile = body req ''mobile'' in
      if \<not> truthy email \<or> \<not> truthy password \<or> \<not> truthy mobile
      then (json 400 (Message ''Email, password, and mobile are required.''), w)
      else
        (case auth_createUser e email password mobile w of
           (Inl err, w1) \<Rightarrow>
             (if err_code err = ''auth/email-already-in-use''
              then (json 409 (Message ''Email already registered.''), w1)
              else (handleError err ''Error creating user'', w1))
         | (Inr u, w1) \<Rightarrow>
             (case fs_set e Users u
                     (obj [(''email'', lit email), (''mobile'', lit mobile),
                           (''createdAt'', Some ServerTimestamp)]) w1 of
                (Inl err, w2) \<Rightarrow>
                  (if err_code err = ''auth/email-already-in-use''
                   then (json 409 (Message ''Email already registered.''), w2)
                   else (handleError err ''Error creating user'', w2))
              | (Inr x, w2) \<Rightarrow>
                  (json 201 (MessageUid ''User created successfully!'' u), w2))))"

subsection \<open>Token verification\<close>

text \<open>\<^verbatim>\<open>s.split(sep)\<close> for a non-empty separator; \<open>cur\<close> is the piece being read.\<close>

fun split :: "string \<Rightarrow> string \<Rightarrow> string \<Rightarrow> string list" where
  "split sep cur [] = [cur]"
| "split sep cur (c # cs) =
     (if prefix sep (c # cs) then cur # split sep [] (drop (length sep - 1) cs)
      else split sep (cur @ [c]) cs)"

text \<open>\<^verbatim>\<open>req.headers.authorization?.split('Bearer ')[1]\<close>\<close>

definition idToken :: "request \<Rightarrow> string option" where
  "idToken req =
     (case authorization req of
        None \<Rightarrow> None
      | Some h \<Rightarrow>
          (case split ''Bearer '' [] h of
             p0 # p1 # ps \<Rightarrow> Some p1
           | ps \<Rightarrow> None))"

text \<open>
  The middleware in front of every protected route. \<open>next\<close> is the route's handler;
  it gets the decoded token that the middleware attaches to the request.
\<close>

definition verifyToken ::
  "env \<Rightarrow> (decoded \<Rightarrow> request \<Rightarrow> world \<Rightarrow> response \<times> world) \<Rightarrow> request \<Rightarrow> world
     \<Rightarrow> response \<times> world" where
  "verifyToken e next req w =
     (case idToken req of
        None \<Rightarrow> (json 401 (Message ''No token provided.''), w)
      | Some t \<Rightarrow>
          if t = [] then (json 401 (Message ''No token provided.''), w)
          else
            (case auth_verifyIdToken e t w of
               (Inl err, w1) \<Rightarrow> (handleError err ''Invalid or expired token.'', w1)
             | (Inr decodedToken, w1) \<Rightarrow> next decodedToken req w1))"

subsection \<open>Submitting a loan application\<close>

definition apply_loan_handler :: "env \<Rightarrow> decoded \<Rightarrow> request \<Rightarrow> world \<Rightarrow> response \<times> world" where
  "apply_loan_handler e user req w =
     (let loanType = body req ''loanType''; purpose = body req ''purpose'';
          panNumber = body req ''panNumber'';
          requestedLoanAmount = body req ''requestedLoanAmount'';
          monthlyEmi = body req ''monthlyEmi''; totalInterest = body req ''totalInterest'';
          principalAmount = body req ''principalAmount'';
          totalAmountPayable = body req ''totalAmountPayable'';
          idProofFileName = body req ''idProofFileName'';
          userId = uid user in
      if \<not> truthy loanType \<or> \<not> truthy purpose \<or> \<not> truthy panNumber
           \<or> \<not> truthy requestedLoanAmount
      then (json 400 (Message ''Missing required loan application fields.''), w)
      else
        (case fs_add e (LoanApplications userId)
                (obj [(''userId'', Some (Lit (JStr userId))),
                      (''loanType'', lit loanType),
                      (''purpose'', lit purpose),
                      (''panNumber'', lit panNumber),
                      (''requestedLoanAmount'', lit requestedLoanAmount),
                      (''monthlyEmi'', lit monthlyEmi),
                      (''totalInterest'', lit totalInterest),
                      (''principalAmount'', lit principalAmount),
                      (''totalAmountPayable'', lit totalAmountPayable),
                      (''idProofFileName'', lit idProofFileName),
                      (''status'', Some (Lit (JStr ''Pending''))),
                      (''appliedDate'', Some ServerTimestamp)]) w of
           (Inl err, w1) \<Rightarrow> (handleError err ''Error submitting loan application'', w1)
         | (Inr ref_id, w1) \<Rightarrow>
             (case fs_set e AllApplications ref_id
                     (obj [(''userId'', Some (Lit (JStr userId))),
                           (''loanType'', lit loanType),
                           (''purpose'', lit purpose),
                           (''panNumber'', lit panNumber),
                           (''requestedLoanAmount'', lit requestedLoanAmount),
                           (''monthlyEmi'', lit monthlyEmi),
                           (''totalInterest'', lit totalInterest),
                           (''principalAmount'', lit principalAmount),
                           (''totalAmountPayable'', lit totalAmountPayable),
                           (''idProofFileName'', lit idProofFileName),
                           (''status'', Some (Lit (JStr ''Pending''))),
                           (''appliedDate'', Some ServerTimestamp),
                           (''applicationId'', Some (Lit (JStr ref_id)))]) w1 of
                (Inl err, w2) \<Rightarrow> (handleError err ''Error submitting loan application'', w2)
              | (Inr x, w2) \<Rightarrow>
                  (json 201 (MessageApplicationId ''Loan application submitted successfully!''
                               ref_id), w2))))"

definition apply_loan :: "env \<Rightarrow> request \<Rightarrow> world \<Rightarrow> response \<times> world" where
  "apply_loan e = verifyToken e (apply_loan_handler e)"

subsection \<open>Updating the status of an application\<close>

definition update_status_handler :: "env \<Rightarrow> decoded \<Rightarrow> request \<Rightarrow> world \<Rightarrow> response \<times> world" where
  "update_status_handler e user req w =
     (let id = param_id req; status = body req ''status'';
          repayment = body req ''repayment'' in
      if \<not> truthy status then (json 400 (Message ''Status is required.''), w)
      else
        (case fs_update e AllApplications id
                (obj [(''status'', lit status),
                      (''repayment'', Some (Lit (or_null repayment)))]) w of
           (Inl err, w1) \<Rightarrow> (handleError err ''Error updating application status'', w1)
         | (Inr x, w1) \<Rightarrow>
             (case fs_get e AllApplications id w1 of
                (Inl err, w2) \<Rightarrow> (handleError err ''Error updating application status'', w2)
              | (Inr appData, w2) \<Rightarrow>
                  (case appData of
                     None \<Rightarrow> (json 200 (StatusUpdated id status), w2)
                   | Some d \<Rightarrow>
                       if truthy (d ''userId'') then
                         (case doc_id (d ''userId'') of
                            Inl err \<Rightarrow>
                              (handleError err ''Error updating application status'', w2)
                          | Inr owner \<Rightarrow>
                              (case fs_update e (LoanApplications owner) id
                                      (obj [(''status'', lit status),
                                            (''repayment'', Some (Lit (or_null repayment)))])
                                      w2 of
                                 (Inl err, w3) \<Rightarrow>
                                   (handleError err ''Error updating application status'', w3)
                               | (Inr y, w3) \<Rightarrow>
                                   (json 200 (StatusUpdated id status), w3)))
                       else (json 200 (StatusUpdated id status), w2)))))"

definition update_status :: "env \<Rightarrow> request \<Rightarrow> world \<Rightarrow> response \<times> world" where
  "update_status e = verifyToken e (update_status_handler e)"

section \<open>Notions used in the statements\<close>

text \<open>
  The two fields that a status update writes: \<^verbatim>\<open>{ status: status, repayment: repayment || null }\<close>
  as a document.
\<close>

definition status_fields :: "jvalue option \<Rightarrow> jvalue option \<Rightarrow> doc" where
  "status_fields s r =
     (\<lambda>f. if f = ''status'' then s else if f = ''repayment'' then Some (or_null r) else None)"



section \<open>Example data\<close>

text \<open>
  A user \<open>u1\<close> whose token is \<open>tok\<close>, a store that never refuses a call and hands out
  the id \<open>X\<close>, and a server clock that advances with every call.
\<close>

definition demo_env :: env where
  "demo_env =
     \<lparr>createUser_result = (\<lambda>email password phone w. Inr ''u1''),
      verifyIdToken_result =
        (\<lambda>t w. if t = ''tok'' then Inr \<lparr>uid = ''u1''\<rparr>
                else Inl (Error ''auth/argument-error'' ''Decoding the token failed'')),
      fault = (\<lambda>c w. None),
      autoId = (\<lambda>w. ''X''),
      serverTime = (\<lambda>w. length (trace w))\<rparr>"

definition empty_world :: world where
  "empty_world = \<lparr>accounts = [], docs = Map.empty, trace = []\<rparr>"


definition demo_user_doc :: doc where
  "demo_user_doc =
     [''userId'' \<mapsto> JStr ''u1'', ''loanType'' \<mapsto> JStr ''Personal'',
      ''status'' \<mapsto> JStr ''Pending'', ''appliedDate'' \<mapsto> JTimestamp 1]"

definition demo_global_doc :: doc where
  "demo_global_doc =
     [''userId'' \<mapsto> JStr ''u1'', ''loanType'' \<mapsto> JStr ''Personal'',
      ''status'' \<mapsto> JStr ''Pending'', ''appliedDate'' \<mapsto> JTimestamp 2,
      ''applicationId'' \<mapsto> JStr ''X'']"

text \<open>A store that holds one application \<open>X\<close> of user \<open>u1\<close>, in both places.\<close>

definition demo_world :: world where
  "demo_world =
     \<lparr>accounts = [],
      docs = [(LoanApplications ''u1'', ''X'') \<mapsto> demo_user_doc,
              (AllApplications, ''X'') \<mapsto> demo_global_doc],
      trace = []\<rparr>"


definition demo_status_req :: request where
  "demo_status_req =
     \<lparr>authorization = Some ''Bearer tok'',
      body = [''status'' \<mapsto> JStr ''Approved'', ''repayment'' \<mapsto> JStr ''Paid''],
      param_id = ''X''\<rparr>"

text \<open>A status outside the three named ones, and a repayment that is falsy.\<close>

definition odd_status_req :: request where
  "odd_status_req =
     \<lparr>authorization = Some ''Bearer tok'',
      body = [''status'' \<mapsto> JStr ''Banana'', ''repayment'' \<mapsto> JNum 0],
      param_id = ''X''\<rparr>"

text \<open>Requests that lack a required field, with and without a token.\<close>

definition empty_req :: request where
  "empty_req = \<lparr>authorization = None, body = Map.empty, param_id = ''X''\<rparr>"

definition empty_req_tok :: request where
  "empty_req_tok = \<lparr>authorization = Some ''Bearer tok'', body = Map.empty, param_id = ''X''\<rparr>"

definition bad_token_req :: request where
  "bad_token_req =
     \<lparr>authorization = Some ''Bearer expired'',
      body = [''status'' \<mapsto> JStr ''Approved''],
      param_id = ''X''\<rparr>"

section \<open>The store operations\<close>

lemma docs_record_call [simp]: "docs (record_call c w) = docs w"
  by (simp add: record_call_def)

lemma accounts_record_call [simp]: "accounts (record_call c w) = accounts w"
  by (simp add: record_call_def)

lemma trace_record_call [simp]: "trace (record_call c w) = trace w @ [c]"
  by (simp add: record_call_def)

lemma fs_update_Inl:
  assumes "fs_update e c i d w = (Inl err, w')"
  shows "docs w' = docs w \<and> accounts w' = accounts w \<and> trace w' = trace w @ [UpdateDoc c i]
           \<and> (fault e (UpdateDoc c i) w = Some err \<or> docs w (c, i) = None \<and> err = not_found)"
  using assms by (auto simp: fs_update_def record_call_def Let_def split: option.splits)

lemma fs_update_Inr:
  assumes "fs_update e c i d w = (Inr x, w')"
  shows "\<exists>old. docs w (c, i) = Some old \<and> fault e (UpdateDoc c i) w = None
           \<and> docs w' = (docs w)((c, i) \<mapsto> old ++ resolve (serverTime e w) d)
           \<and> accounts w' = accounts w \<and> trace w' = trace w @ [UpdateDoc c i]"
  using assms by (auto simp: fs_update_def record_call_def Let_def split: option.splits)

lemma fs_get_Inl:
  assumes "fs_get e c i w = (Inl err, w')"
  shows "docs w' = docs w \<and> accounts w' = accounts w \<and> trace w' = trace w @ [GetDoc c i]
           \<and> fault e (GetDoc c i) w = Some err"
  using assms by (auto simp: fs_get_def record_call_def Let_def split: option.splits)

lemma fs_get_Inr:
  assumes "fs_get e c i w = (Inr x, w')"
  shows "x = docs w (c, i) \<and> docs w' = docs w \<and> accounts w' = accounts w
           \<and> trace w' = trace w @ [GetDoc c i]"
  using assms by (auto simp: fs_get_def record_call_def Let_def split: option.splits)





lemma resolve_status_fields:
  "truthy s \<Longrightarrow> resolve t (obj [(''status'', lit s), (''repayment'', Some (Lit (or_null r)))]) = status_fields s r"
  by (cases s) (auto simp: resolve_def obj_def lit_def status_fields_def)


lemma lit_case [simp]: "(case lit v of None \<Rightarrow> None | Some (Lit x) \<Rightarrow> Some x | Some ServerTimestamp \<Rightarrow> Some (JTimestamp t)) = v"
  by (cases v) (simp_all add: lit_def)

lemma doc_id_Inr: "doc_id v = Inr s \<Longrightarrow> v = Some (JStr s) \<and> s \<noteq> []"
  by (cases v rule: doc_id.cases) (auto split: if_splits)

lemma doc_id_Inl: "doc_id v = Inl err \<Longrightarrow> err = invalid_path \<and> (\<forall>s. v = Some (JStr s) \<longrightarrow> s = [])"
  by (cases v rule: doc_id.cases) (auto split: if_splits)

lemma status_fields_userId [simp]: "(g ++ status_fields s r) ''userId'' = g ''userId''"
  by (simp add: status_fields_def map_add_def)

lemma status_fields_status [simp]: "(g ++ status_fields s r) ''status'' = (case s of None \<Rightarrow> g ''status'' | Some v \<Rightarrow> Some v)"
  by (simp add: status_fields_def map_add_def split: option.splits)

lemma status_fields_repayment [simp]: "(g ++ status_fields s r) ''repayment'' = Some (or_null r)"
  by (simp add: status_fields_def map_add_def)

lemma status_fields_other:
  "f \<noteq> ''status'' \<Longrightarrow> f \<noteq> ''repayment'' \<Longrightarrow> (g ++ status_fields s r) f = g f"
  by (simp add: status_fields_def map_add_def)

lemma truthy_Some: "truthy s \<Longrightarrow> \<exists>v. s = Some v"
  by (cases s) simp_all

lemma res_status_json [simp]: "res_status (json s p) = s"
  by (simp add: json_def)

lemma res_json_json [simp]: "res_json (json s p) = p"
  by (simp add: json_def)

lemma res_status_handleError [simp]: "res_status (handleError err m) = 500"
  by (simp add: handleError_def)

section \<open>The example data\<close>

lemma demo_facts:
  "\<forall>c v. fault demo_env c v = None"
  "verifyIdToken_result demo_env ''tok'' w = Inr \<lparr>uid = ''u1''\<rparr>"
  "verifyIdToken_result demo_env ''expired'' w
     = Inl (Error ''auth/argument-error'' ''Decoding the token failed'')"
  "autoId demo_env w = ''X''"
  "serverTime demo_env w = length (trace w)"
  by (simp_all add: demo_env_def)

lemma demo_world_facts:
  "docs demo_world (AllApplications, ''X'') = Some demo_global_doc"
  "docs demo_world (LoanApplications ''u1'', ''X'') = Some demo_user_doc"
  "trace demo_world = []"
  "demo_global_doc ''userId'' = Some (JStr ''u1'')"
  "demo_global_doc ''status'' = Some (JStr ''Pending'')"
  "demo_user_doc ''userId'' = Some (JStr ''u1'')"
  "demo_user_doc ''status'' = Some (JStr ''Pending'')"
  by (simp_all add: demo_world_def demo_global_doc_def demo_user_doc_def)


lemma demo_status_req_facts:
  "idToken demo_status_req = Some ''tok''"
  "param_id demo_status_req = ''X''"
  "body demo_status_req ''status'' = Some (JStr ''Approved'')"
  "body demo_status_req ''repayment'' = Some (JStr ''Paid'')"
  by (simp_all add: demo_status_req_def idToken_def)

lemma odd_status_req_facts:
  "idToken odd_status_req = Some ''tok''"
  "param_id odd_status_req = ''X''"
  "body odd_status_req ''status'' = Some (JStr ''Banana'')"
  "body odd_status_req ''repayment'' = Some (JNum 0)"
  by (simp_all add: odd_status_req_def idToken_def)



lemma bad_token_req_facts:
  "idToken bad_token_req = Some ''expired''"
  by (simp add: bad_token_req_def idToken_def)

lemma empty_req_facts:
  "authorization empty_req = None"
  "idToken empty_req = None"
  "body empty_req f = None"
  "idToken empty_req_tok = Some ''tok''"
  "body empty_req_tok f = None"
  by (simp_all add: empty_req_def empty_req_tok_def idToken_def)

section \<open>The gate in front of the protected routes\<close>

lemma verifyToken_cases:
  obtains
    (no_token) "idToken req = None \<or> idToken req = Some []"
      "verifyToken e next req w = (json 401 (Message ''No token provided.''), w)"
  | (rejected) t err where "idToken req = Some t" "t \<noteq> []"
      "verifyIdToken_result e t w = Inl err"
      "verifyToken e next req w =
         (handleError err ''Invalid or expired token.'', record_call (VerifyIdToken t) w)"
  | (verified) t d where "idToken req = Some t" "t \<noteq> []"
      "verifyIdToken_result e t w = Inr d"
      "verifyToken e next req w = next d req (record_call (VerifyIdToken t) w)"
proof (cases "idToken req")
  case None
  with no_token show thesis by (simp add: verifyToken_def)
next
  case (Some t)
  show thesis
  proof (cases "t = []")
    case True
    with Some no_token show thesis by (simp add: verifyToken_def)
  next
    case False
    show thesis
    proof (cases "verifyIdToken_result e t w")
      case (Inl err)
      with Some False rejected show thesis
        by (simp add: verifyToken_def auth_verifyIdToken_def)
    next
      case (Inr d)
      with Some False verified show thesis
        by (simp add: verifyToken_def auth_verifyIdToken_def)
    qed
  qed
qed


text \<open>
  Claim C7. In front of any handler \<open>next\<close>: a request without an authorization
  header, or whose header yields no token, is answered with 401 and nothing else
  happens; a request whose token fails verification is answered by the generic error
  handler with 500, and the verification is the only call made. In both cases the
  answer and the state do not depend on \<open>next\<close>: the handler is not run, and the store
  is as before.
\<close>

theorem verifyToken_gate:
  "(authorization req = None \<or> idToken req = None \<or> idToken req = Some []
      \<longrightarrow> verifyToken e next req w = (json 401 (Message ''No token provided.''), w))
   \<and> (\<forall>t err. idToken req = Some t \<and> t \<noteq> [] \<and> verifyIdToken_result e t w = Inl err
        \<longrightarrow> verifyToken e next req w
              = (handleError err ''Invalid or expired token.'', record_call (VerifyIdToken t) w)
          \<and> res_status (fst (verifyToken e next req w)) = 500
          \<and> docs (snd (verifyToken e next req w)) = docs w
          \<and> accounts (snd (verifyToken e next req w)) = accounts w
          \<and> trace (snd (verifyToken e next req w)) = trace w @ [VerifyIdToken t])"
proof -
  have a: "idToken req = None" if "authorization req = None"
    using that by (simp add: idToken_def)
  have n: "verifyToken e next req w = (json 401 (Message ''No token provided.''), w)"
    if "idToken req = None \<or> idToken req = Some []"
    using that by (auto simp: verifyToken_def)
  have r: "verifyToken e next req w
             = (handleError err ''Invalid or expired token.'', record_call (VerifyIdToken t) w)"
    if "idToken req = Some t" "t \<noteq> []" "verifyIdToken_result e t w = Inl err" for t err
    using that by (simp add: verifyToken_def auth_verifyIdToken_def)
  show ?thesis
  proof (intro conjI allI impI)
    assume "authorization req = None \<or> idToken req = None \<or> idToken req = Some []"
    with a have "idToken req = None \<or> idToken req = Some []" by auto
    then show "verifyToken e next req w = (json 401 (Message ''No token provided.''), w)"
      by (rule n)
  next
    fix t err
    assume "idToken req = Some t \<and> t \<noteq> [] \<and> verifyIdToken_result e t w = Inl err"
    then have *: "verifyToken e next req w
             = (handleError err ''Invalid or expired token.'', record_call (VerifyIdToken t) w)"
      using r by blast
    show "verifyToken e next req w
             = (handleError err ''Invalid or expired token.'', record_call (VerifyIdToken t) w)"
      by (rule *)
    show "res_status (fst (verifyToken e next req w)) = 500"
      "docs (snd (verifyToken e next req w)) = docs w"
      "accounts (snd (verifyToken e next req w)) = accounts w"
      "trace (snd (verifyToken e next req w)) = trace w @ [VerifyIdToken t]"
      by (simp_all add: *)
  qed
qed

theorem verifyToken_gate_witness:
  "authorization empty_req = None
   \<and> update_status demo_env empty_req demo_world
       = (json 401 (Message ''No token provided.''), demo_world)
   \<and> idToken bad_token_req = Some ''expired''
   \<and> verifyIdToken_result demo_env ''expired'' demo_world
       = Inl (Error ''auth/argument-error'' ''Decoding the token failed'')
   \<and> res_status (fst (update_status demo_env bad_token_req demo_world)) = 500
   \<and> docs (snd (update_status demo_env bad_token_req demo_world)) = docs demo_world
   \<and> trace (snd (update_status demo_env bad_token_req demo_world))
       = trace demo_world @ [VerifyIdToken ''expired'']"
proof -
  let ?h = "update_status_handler demo_env"
  let ?err = "Error ''auth/argument-error'' ''Decoding the token failed''"
  have 1: "authorization empty_req = None" by (rule empty_req_facts(1))
  have 2: "idToken bad_token_req = Some ''expired'' \<and> ''expired'' \<noteq> []
             \<and> verifyIdToken_result demo_env ''expired'' demo_world = Inl ?err"
    by (simp add: bad_token_req_facts demo_facts(3))
  note a = verifyToken_gate [of empty_req demo_env ?h demo_world, THEN conjunct1, THEN mp,
             OF disjI1, OF 1]
  note b = verifyToken_gate [of bad_token_req demo_env ?h demo_world, THEN conjunct2,
             THEN spec, THEN spec, THEN mp, OF 2]
  from 1 2 a b show ?thesis
    unfolding update_status_def by blast
qed

section \<open>The outcomes of a loan application\<close>





section \<open>The two copies of a new application\<close>






section \<open>The outcomes of a status update\<close>

lemma update_status_handler_cases:
  assumes "update_status_handler e user req w = (r, w')"
  obtains
    (invalid) "\<not> truthy (body req ''status'')" "r = json 400 (Message ''Status is required.'')"
      "w' = w"
  | (global_failed) err where "truthy (body req ''status'')"
      "r = handleError err ''Error updating application status''"
      "docs w' = docs w" "accounts w' = accounts w"
      "trace w' = trace w @ [UpdateDoc AllApplications (param_id req)]"
      "fault e (UpdateDoc AllApplications (param_id req)) w = Some err
         \<or> docs w (AllApplications, param_id req) = None \<and> err = not_found"
  | (get_failed) err g w1 where "truthy (body req ''status'')"
      "docs w (AllApplications, param_id req) = Some g"
      "r = handleError err ''Error updating application status''"
      "docs w' = (docs w)((AllApplications, param_id req) \<mapsto>
                    g ++ status_fields (body req ''status'') (body req ''repayment''))"
      "accounts w' = accounts w"
      "trace w' = trace w @ [UpdateDoc AllApplications (param_id req),
                             GetDoc AllApplications (param_id req)]"
      "fault e (GetDoc AllApplications (param_id req)) w1 = Some err"
  | (no_owner) g where "truthy (body req ''status'')"
      "docs w (AllApplications, param_id req) = Some g" "\<not> truthy (g ''userId'')"
      "r = json 200 (StatusUpdated (param_id req) (body req ''status''))"
      "docs w' = (docs w)((AllApplications, param_id req) \<mapsto>
                    g ++ status_fields (body req ''status'') (body req ''repayment''))"
      "accounts w' = accounts w"
      "trace w' = trace w @ [UpdateDoc AllApplications (param_id req),
                             GetDoc AllApplications (param_id req)]"
  | (bad_owner) g where "truthy (body req ''status'')"
      "docs w (AllApplications, param_id req) = Some g" "truthy (g ''userId'')"
      "\<forall>s. g ''userId'' \<noteq> Some (JStr s)"
      "r = handleError invalid_path ''Error updating application status''"
      "docs w' = (docs w)((AllApplications, param_id req) \<mapsto>
                    g ++ status_fields (body req ''status'') (body req ''repayment''))"
      "accounts w' = accounts w"
      "trace w' = trace w @ [UpdateDoc AllApplications (param_id req),
                             GetDoc AllApplications (param_id req)]"
  | (user_failed) g owner err w2 where "truthy (body req ''status'')"
      "docs w (AllApplications, param_id req) = Some g" "g ''userId'' = Some (JStr owner)"
      "owner \<noteq> []"
      "r = handleError err ''Error updating application status''"
      "docs w' = (docs w)((AllApplications, param_id req) \<mapsto>
                    g ++ status_fields (body req ''status'') (body req ''repayment''))"
      "accounts w' = accounts w"
      "trace w' = trace w @ [UpdateDoc AllApplications (param_id req),
                             GetDoc AllApplications (param_id req),
                             UpdateDoc (LoanApplications owner) (param_id req)]"
      "fault e (UpdateDoc (LoanApplications owner) (param_id req)) w2 = Some err
         \<or> docs w (LoanApplications owner, param_id req) = None \<and> err = not_found"
  | (both_updated) g owner u where "truthy (body req ''status'')"
      "docs w (AllApplications, param_id req) = Some g" "g ''userId'' = Some (JStr owner)"
      "owner \<noteq> []"
      "docs w (LoanApplications owner, param_id req) = Some u"
      "r = json 200 (StatusUpdated (param_id req) (body req ''status''))"
      "docs w' = (docs w)
         ((AllApplications, param_id req) \<mapsto>
            g ++ status_fields (body req ''status'') (body req ''repayment''),
          (LoanApplications owner, param_id req) \<mapsto>
            u ++ status_fields (body req ''status'') (body req ''repayment''))"
      "accounts w' = accounts w"
      "trace w' = trace w @ [UpdateDoc AllApplications (param_id req),
                             GetDoc AllApplications (param_id req),
                             UpdateDoc (LoanApplications owner) (param_id req)]"
proof (cases "truthy (body req ''status'')")
  case False
  with assms invalid show thesis
    by (simp add: update_status_handler_def Let_def)
next
  case st: True
  let ?id = "param_id req"
  let ?upd = "obj [(''status'', lit (body req ''status'')),
                  (''repayment'', Some (Lit (or_null (body req ''repayment''))))]"
  let ?sf = "status_fields (body req ''status'') (body req ''repayment'')"
  obtain r1 w1 where u1: "fs_update e AllApplications ?id ?upd w = (r1, w1)" by force
  show thesis
  proof (cases r1)
    case (Inl err)
    with assms st u1 have "r = handleError err ''Error updating application status''" "w' = w1"
      by (simp_all add: update_status_handler_def Let_def)
    with fs_update_Inl [OF u1 [unfolded Inl]] st global_failed show thesis by blast
  next
    case (Inr x)
    from fs_update_Inr [OF u1 [unfolded Inr]] resolve_status_fields [OF st]
    obtain g where g: "docs w (AllApplications, ?id) = Some g"
      and d1: "docs w1 = (docs w)((AllApplications, ?id) \<mapsto> g ++ ?sf)"
      and a1: "accounts w1 = accounts w"
      and t1: "trace w1 = trace w @ [UpdateDoc AllApplications ?id]"
      by auto
    obtain r2 w2 where u2: "fs_get e AllApplications ?id w1 = (r2, w2)" by force
    show thesis
    proof (cases r2)
      case (Inl err)
      with assms st u1 u2 Inr
      have "r = handleError err ''Error updating application status''" "w' = w2"
        by (simp_all add: update_status_handler_def Let_def)
      with fs_get_Inl [OF u2 [unfolded Inl]] st g d1 a1 t1 get_failed show thesis by auto
    next
      case r2: (Inr appData)
      from fs_get_Inr [OF u2 [unfolded r2]] d1 a1 t1
      have ad: "appData = Some (g ++ ?sf)"
        and d2: "docs w2 = (docs w)((AllApplications, ?id) \<mapsto> g ++ ?sf)"
        and a2: "accounts w2 = accounts w"
        and t2: "trace w2 = trace w @ [UpdateDoc AllApplications ?id, GetDoc AllApplications ?id]"
        by auto
      show thesis
      proof (cases "truthy (g ''userId'')")
        case False
        with assms st u1 u2 Inr r2 ad
        have "r = json 200 (StatusUpdated ?id (body req ''status''))" "w' = w2"
          by (simp_all add: update_status_handler_def Let_def)
        with False st g d2 a2 t2 no_owner show thesis by simp
      next
        case tu: True
        show thesis
        proof (cases "doc_id (g ''userId'')")
          case (Inl err)
          with assms st u1 u2 Inr r2 ad tu
          have "r = handleError err ''Error updating application status''" "w' = w2"
            by (simp_all add: update_status_handler_def Let_def)
          moreover from doc_id_Inl [OF Inl] tu have "err = invalid_path" "\<forall>s. g ''userId'' \<noteq> Some (JStr s)"
            by auto
          ultimately show thesis using tu st g d2 a2 t2 bad_owner by simp
        next
          case ow: (Inr owner)
          from doc_id_Inr [OF ow] have go: "g ''userId'' = Some (JStr owner)" "owner \<noteq> []"
            by simp_all
          obtain r3 w3 where u3: "fs_update e (LoanApplications owner) ?id ?upd w2 = (r3, w3)"
            by force
          show thesis
          proof (cases r3)
            case (Inl err)
            with assms st u1 u2 Inr r2 ad tu ow u3
            have "r = handleError err ''Error updating application status''" "w' = w3"
              by (simp_all add: update_status_handler_def Let_def)
            with fs_update_Inl [OF u3 [unfolded Inl]] st g go d2 a2 t2 user_failed
            show thesis by (auto split: if_splits)
          next
            case r3: (Inr y)
            with assms st u1 u2 Inr r2 ad tu ow u3
            have "r = json 200 (StatusUpdated ?id (body req ''status''))" "w' = w3"
              by (simp_all add: update_status_handler_def Let_def)
            moreover from fs_update_Inr [OF u3 [unfolded r3]] resolve_status_fields [OF st] d2 a2 t2
            obtain u where "docs w (LoanApplications owner, ?id) = Some u"
              "docs w3 = (docs w)((AllApplications, ?id) \<mapsto> g ++ ?sf,
                                   (LoanApplications owner, ?id) \<mapsto> u ++ ?sf)"
              "accounts w3 = accounts w"
              "trace w3 = trace w @ [UpdateDoc AllApplications ?id, GetDoc AllApplications ?id,
                                     UpdateDoc (LoanApplications owner) ?id]"
              by (auto split: if_splits)
            ultimately show thesis using st g go both_updated by simp
          qed
        qed
      qed
    qed
  qed
qed

lemma update_status_verified:
  assumes "update_status e req w = (r, w')"
  obtains
    (unauthenticated) "idToken req = None \<or> idToken req = Some []"
      "r = json 401 (Message ''No token provided.'')" "w' = w"
  | (token_rejected) t err where "idToken req = Some t" "t \<noteq> []"
      "verifyIdToken_result e t w = Inl err"
      "r = handleError err ''Invalid or expired token.''"
      "w' = record_call (VerifyIdToken t) w"
  | (token_verified) t d where "idToken req = Some t" "t \<noteq> []"
      "verifyIdToken_result e t w = Inr d"
      "update_status_handler e d req (record_call (VerifyIdToken t) w) = (r, w')"
proof (cases rule: verifyToken_cases [of req e "update_status_handler e" w])
  case no_token
  from assms no_token(2) have "r = json 401 (Message ''No token provided.'')" "w' = w"
    unfolding update_status_def by auto
  with no_token(1) show thesis by (rule unauthenticated)
next
  case (rejected t err)
  from assms rejected(4)
  have "r = handleError err ''Invalid or expired token.''" "w' = record_call (VerifyIdToken t) w"
    unfolding update_status_def by auto
  with rejected(1-3) show thesis by (rule token_rejected)
next
  case (verified t d)
  from assms verified(4)
  have "update_status_handler e d req (record_call (VerifyIdToken t) w) = (r, w')"
    unfolding update_status_def by auto
  with verified(1-3) show thesis by (rule token_verified)
qed

lemma update_status_handler_ok:
  assumes "\<forall>c v. fault e c v = None"
    and "truthy (body req ''status'')"
    and "docs w (AllApplications, param_id req) = Some g"
    and "g ''userId'' = Some (JStr owner)" and "owner \<noteq> []"
    and "docs w (LoanApplications owner, param_id req) = Some u"
    and "update_status_handler e user req w = (r, w')"
  shows "r = json 200 (StatusUpdated (param_id req) (body req ''status''))
       \<and> docs w' = (docs w)
           ((AllApplications, param_id req) \<mapsto>
              g ++ status_fields (body req ''status'') (body req ''repayment''),
            (LoanApplications owner, param_id req) \<mapsto>
              u ++ status_fields (body req ''status'') (body req ''repayment''))
       \<and> accounts w' = accounts w
       \<and> trace w' = trace w @ [UpdateDoc AllApplications (param_id req),
                                GetDoc AllApplications (param_id req),
                                UpdateDoc (LoanApplications owner) (param_id req)]"
  using assms(7)
proof (cases rule: update_status_handler_cases)
  case (both_updated g' owner' u')
  with assms show ?thesis by simp
qed (use assms in auto)

lemma update_status_handler_orphan:
  assumes "\<forall>c v. fault e c v = None"
    and "truthy (body req ''status'')"
    and "docs w (AllApplications, param_id req) = Some g"
    and "\<not> truthy (g ''userId'')"
    and "update_status_handler e user req w = (r, w')"
  shows "r = json 200 (StatusUpdated (param_id req) (body req ''status''))
       \<and> docs w' = (docs w)
           ((AllApplications, param_id req) \<mapsto>
              g ++ status_fields (body req ''status'') (body req ''repayment''))
       \<and> accounts w' = accounts w
       \<and> trace w' = trace w @ [UpdateDoc AllApplications (param_id req),
                                GetDoc AllApplications (param_id req)]"
  using assms(5)
proof (cases rule: update_status_handler_cases)
  case (no_owner g')
  with assms show ?thesis by simp
qed (use assms in auto)

lemma update_status_ok:
  assumes "idToken req = Some t" and "t \<noteq> []" and "verifyIdToken_result e t w = Inr d"
    and "\<forall>c v. fault e c v = None"
    and "truthy (body req ''status'')"
    and "docs w (AllApplications, param_id req) = Some g"
    and "g ''userId'' = Some (JStr owner)" and "owner \<noteq> []"
    and "docs w (LoanApplications owner, param_id req) = Some u"
  shows "fst (update_status e req w)
           = json 200 (StatusUpdated (param_id req) (body req ''status''))
       \<and> docs (snd (update_status e req w)) = (docs w)
           ((AllApplications, param_id req) \<mapsto>
              g ++ status_fields (body req ''status'') (body req ''repayment''),
            (LoanApplications owner, param_id req) \<mapsto>
              u ++ status_fields (body req ''status'') (body req ''repayment''))"
proof -
  obtain r w' where h: "update_status e req w = (r, w')" by force
  from h have "r = json 200 (StatusUpdated (param_id req) (body req ''status''))
       \<and> docs w' = (docs w)
           ((AllApplications, param_id req) \<mapsto>
              g ++ status_fields (body req ''status'') (body req ''repayment''),
            (LoanApplications owner, param_id req) \<mapsto>
              u ++ status_fields (body req ''status'') (body req ''repayment''))"
  proof (cases rule: update_status_verified)
    case (token_verified t' d')
    let ?w1 = "record_call (VerifyIdToken t') w"
    have g: "docs ?w1 (AllApplications, param_id req) = Some g"
      and u: "docs ?w1 (LoanApplications owner, param_id req) = Some u"
      using assms(6,9) by simp_all
    from update_status_handler_ok [OF assms(4,5) g assms(7,8) u token_verified(4)]
    show ?thesis by simp
  qed (use assms in auto)
  with h show ?thesis by simp
qed

lemma update_status_handler_frame:
  assumes "f \<noteq> ''status''" "f \<noteq> ''repayment''"
    and "update_status_handler e user req w = (r, w')"
  shows "map_option (\<lambda>d. d f) (docs w' p) = map_option (\<lambda>d. d f) (docs w p)"
  using assms(3)
  by (cases rule: update_status_handler_cases)
     (use assms(1,2) in \<open>auto simp: status_fields_other\<close>)

section \<open>Both copies after a status update\<close>

text \<open>
  Claim C2. A status update of an application whose global copy names its owner (a
  truthy \<open>userId\<close>), once it is answered with 200, leaves the owner's copy and the
  global copy with the same \<open>status\<close> and the same \<open>repayment\<close>: the requested status
  and \<^verbatim>\<open>repayment || null\<close>.
\<close>

theorem update_status_copies_agree:
  assumes "docs w (AllApplications, param_id req) = Some g"
    and "truthy (g ''userId'')"
    and "update_status e req w = (r, w')"
    and "res_status r = 200"
  shows "\<exists>owner gd ud.
           g ''userId'' = Some (JStr owner)
         \<and> docs w' (AllApplications, param_id req) = Some gd
         \<and> docs w' (LoanApplications owner, param_id req) = Some ud
         \<and> ud ''status'' = gd ''status'' \<and> ud ''repayment'' = gd ''repayment''
         \<and> gd ''status'' = body req ''status''
         \<and> gd ''repayment'' = Some (or_null (body req ''repayment''))"
proof (cases rule: verifyToken_cases [of req e "update_status_handler e" w])
  case no_token
  with assms show ?thesis by (auto simp: update_status_def)
next
  case (rejected t err)
  with assms show ?thesis by (auto simp: update_status_def)
next
  case (verified t d)
  with assms(3)
  have h: "update_status_handler e d req (record_call (VerifyIdToken t) w) = (r, w')"
    by (simp add: update_status_def)
  from h show ?thesis
  proof (cases rule: update_status_handler_cases)
    case (both_updated g' owner u)
    with assms(1) truthy_Some [of "body req ''status''"] show ?thesis by auto
  qed (use assms in auto)
qed

theorem update_status_copies_agree_witness:
  "docs demo_world (AllApplications, param_id demo_status_req) = Some demo_global_doc
   \<and> truthy (demo_global_doc ''userId'')
   \<and> res_status (fst (update_status demo_env demo_status_req demo_world)) = 200
   \<and> (\<exists>gd ud. docs (snd (update_status demo_env demo_status_req demo_world)) (AllApplications, ''X'') = Some gd
         \<and> docs (snd (update_status demo_env demo_status_req demo_world)) (LoanApplications ''u1'', ''X'') = Some ud
         \<and> ud ''status'' = gd ''status'' \<and> ud ''repayment'' = gd ''repayment''
         \<and> gd ''status'' = Some (JStr ''Approved'') \<and> gd ''repayment'' = Some (JStr ''Paid''))"
proof -
  let ?U = "update_status demo_env demo_status_req demo_world"
  have 1: "docs demo_world (AllApplications, param_id demo_status_req) = Some demo_global_doc"
    by (simp add: demo_world_facts demo_status_req_facts)
  have 2: "truthy (demo_global_doc ''userId'')"
    by (simp add: demo_world_facts)
  have 3: "res_status (fst ?U) = 200"
    using update_status_ok [of demo_status_req "''tok''" demo_env demo_world "\<lparr>uid = ''u1''\<rparr>"
            demo_global_doc "''u1''" demo_user_doc]
    by (simp add: demo_world_facts demo_status_req_facts demo_facts)
  from update_status_copies_agree [OF 1 2 prod.collapse [symmetric] 3] 1 2 3
  show ?thesis
    by (auto simp: demo_world_facts demo_status_req_facts)
qed

section \<open>The order of the store calls\<close>




section \<open>A status update of an application that does not exist\<close>

text \<open>
  Claim C4. A status update whose id has no document in the global collection
  creates no document anywhere (the store is left as it was), and it is answered with
  an error: 400 or 401 when the request is refused before the store is reached, and
  otherwise 500 from the generic handler, since the update of the missing document
  fails and the failure is caught.
\<close>

theorem update_status_missing_application:
  assumes "docs w (AllApplications, param_id req) = None"
    and "update_status e req w = (r, w')"
  shows "docs w' = docs w \<and> accounts w' = accounts w
       \<and> (res_status r = 400 \<or> res_status r = 401 \<or> res_status r = 500)
       \<and> ((\<exists>t d. idToken req = Some t \<and> t \<noteq> [] \<and> verifyIdToken_result e t w = Inr d)
            \<and> truthy (body req ''status'')
          \<longrightarrow> (\<exists>err. r = handleError err ''Error updating application status''))"
  using assms(2)
proof (cases rule: update_status_verified)
  case (token_verified t d)
  from token_verified(4) show ?thesis
  proof (cases rule: update_status_handler_cases)
    case invalid
    then show ?thesis by simp
  next
    case (global_failed err)
    then show ?thesis by auto
  qed (use assms(1) in simp_all)
qed auto

theorem update_status_missing_application_witness:
  "docs empty_world (AllApplications, param_id demo_status_req) = None
   \<and> docs (snd (update_status demo_env demo_status_req empty_world)) = docs empty_world
   \<and> res_status (fst (update_status demo_env demo_status_req empty_world)) = 500"
proof -
  have 1: "docs empty_world (AllApplications, param_id demo_status_req) = None"
    by (simp add: empty_world_def)
  from update_status_missing_application [OF 1 prod.collapse [symmetric], of demo_env] 1
  show ?thesis
    by (auto simp: demo_status_req_facts demo_facts)
qed



section \<open>What a status update leaves alone\<close>

text \<open>
  Claim C9. A status update changes nothing but the fields \<open>status\<close> and
  \<open>repayment\<close>: every other field of every document reads as before, and no document
  appears or disappears.
\<close>

theorem update_status_frame:
  assumes "f \<noteq> ''status''" and "f \<noteq> ''repayment''"
  shows "map_option (\<lambda>d. d f) (docs (snd (update_status e req w)) p)
           = map_option (\<lambda>d. d f) (docs w p)"
proof -
  obtain r w' where h: "update_status e req w = (r, w')" by force
  from h have "map_option (\<lambda>d. d f) (docs w' p) = map_option (\<lambda>d. d f) (docs w p)"
  proof (cases rule: update_status_verified)
    case (token_verified t d)
    from update_status_handler_frame [OF assms token_verified(4), of p] show ?thesis by simp
  qed auto
  with h show ?thesis by simp
qed

theorem update_status_frame_witness:
  "''userId'' \<noteq> ''status'' \<and> ''userId'' \<noteq> ''repayment''
   \<and> map_option (\<lambda>d. d ''userId'')
        (docs (snd (update_status demo_env demo_status_req demo_world)) (AllApplications, ''X''))
       = Some (Some (JStr ''u1''))"
  using update_status_frame [of "''userId''" demo_env demo_status_req demo_world
          "(AllApplications, ''X'')"]
  by (simp add: demo_world_facts)

section \<open>The status is only checked for being non-empty\<close>

text \<open>
  Claim C10. For any non-empty status string, in the enumeration or not, an update
  of an application that exists in both places, with a verified token and a store that
  refuses nothing, is answered with 200 and writes that string as the status of both
  copies; the repayment written to both is \<^verbatim>\<open>repayment || null\<close>, which is null for an
  absent repayment, the empty string, 0 and false.
\<close>

theorem update_status_any_status:
  assumes "idToken req = Some t" and "t \<noteq> []" and "verifyIdToken_result e t w = Inr d"
    and "\<forall>c v. fault e c v = None"
    and "body req ''status'' = Some (JStr s)" and "s \<noteq> []"
    and "docs w (AllApplications, param_id req) = Some g"
    and "g ''userId'' = Some (JStr owner)" and "owner \<noteq> []"
    and "docs w (LoanApplications owner, param_id req) = Some u"
    and "update_status e req w = (r, w')"
  shows "res_status r = 200
       \<and> (\<exists>gd ud. docs w' (AllApplications, param_id req) = Some gd
             \<and> docs w' (LoanApplications owner, param_id req) = Some ud
             \<and> gd ''status'' = Some (JStr s) \<and> ud ''status'' = Some (JStr s)
             \<and> gd ''repayment'' = Some (or_null (body req ''repayment''))
             \<and> ud ''repayment'' = Some (or_null (body req ''repayment''))
             \<and> (\<not> truthy (body req ''repayment'')
                  \<longrightarrow> gd ''repayment'' = Some JNull \<and> ud ''repayment'' = Some JNull))
       \<and> or_null None = JNull \<and> or_null (Some (JStr [])) = JNull
       \<and> or_null (Some (JNum 0)) = JNull \<and> or_null (Some (JBool False)) = JNull"
proof -
  have st: "truthy (body req ''status'')" using assms(5,6) by simp
  have nn: "\<not> truthy x \<Longrightarrow> or_null x = JNull" for x
    by (cases x) simp_all
  from update_status_ok [OF assms(1-4) st assms(7-10)] assms(11) assms(5)
  show ?thesis by (auto simp: nn)
qed

theorem update_status_any_status_witness:
  "body odd_status_req ''status'' = Some (JStr ''Banana'')
   \<and> res_status (fst (update_status demo_env odd_status_req demo_world)) = 200
   \<and> (\<exists>gd ud. docs (snd (update_status demo_env odd_status_req demo_world)) (AllApplications, ''X'') = Some gd
         \<and> docs (snd (update_status demo_env odd_status_req demo_world)) (LoanApplications ''u1'', ''X'') = Some ud
         \<and> gd ''status'' = Some (JStr ''Banana'') \<and> ud ''status'' = Some (JStr ''Banana'')
         \<and> gd ''repayment'' = Some JNull \<and> ud ''repayment'' = Some JNull)"
  using update_status_any_status [OF _ _ _ demo_facts(1) _ _ _ _ _ _ prod.collapse [symmetric],
          of odd_status_req "''tok''" demo_world "\<lparr>uid = ''u1''\<rparr>" "''Banana''"
             demo_global_doc "''u1''" demo_user_doc]
  by (auto simp: odd_status_req_facts demo_facts demo_world_facts)

section \<open>Requests that lack a required field\<close>

text \<open>
  Claim C8, as amended. A signup that lacks email, password or mobile is answered with
  400 and makes no call at all. A loan application that lacks one of its four required
  fields, and a status update that lacks the status, pass the token check first: with
  a token that verifies they are answered with 400, and the verification of the token
  is the only call made; accounts and documents are as before.
\<close>

theorem missing_field_rejected:
  "(\<not> truthy (body req ''email'') \<or> \<not> truthy (body req ''password'')
      \<or> \<not> truthy (body req ''mobile'')
      \<longrightarrow> signup e req w
            = (json 400 (Message ''Email, password, and mobile are required.''), w))
   \<and> (\<forall>t d. idToken req = Some t \<and> t \<noteq> [] \<and> verifyIdToken_result e t w = Inr d
        \<longrightarrow>
          (\<not> truthy (body req ''loanType'') \<or> \<not> truthy (body req ''purpose'')
             \<or> \<not> truthy (body req ''panNumber'') \<or> \<not> truthy (body req ''requestedLoanAmount'')
           \<longrightarrow> apply_loan e req w
                 = (json 400 (Message ''Missing required loan application fields.''),
                    record_call (VerifyIdToken t) w))
        \<and> (\<not> truthy (body req ''status'')
           \<longrightarrow> update_status e req w
                 = (json 400 (Message ''Status is required.''),
                    record_call (VerifyIdToken t) w)))"
proof (intro conjI allI impI)
  assume "\<not> truthy (body req ''email'') \<or> \<not> truthy (body req ''password'')
      \<or> \<not> truthy (body req ''mobile'')"
  then show "signup e req w
            = (json 400 (Message ''Email, password, and mobile are required.''), w)"
    by (auto simp: signup_def Let_def)
next
  fix t d
  assume v: "idToken req = Some t \<and> t \<noteq> [] \<and> verifyIdToken_result e t w = Inr d"
    and m: "\<not> truthy (body req ''loanType'') \<or> \<not> truthy (body req ''purpose'')
             \<or> \<not> truthy (body req ''panNumber'') \<or> \<not> truthy (body req ''requestedLoanAmount'')"
  from m have "apply_loan_handler e d req (record_call (VerifyIdToken t) w)
                 = (json 400 (Message ''Missing required loan application fields.''),
                    record_call (VerifyIdToken t) w)"
    by (auto simp: apply_loan_handler_def Let_def)
  with v show "apply_loan e req w
                 = (json 400 (Message ''Missing required loan application fields.''),
                    record_call (VerifyIdToken t) w)"
    by (simp add: apply_loan_def verifyToken_def auth_verifyIdToken_def)
next
  fix t d
  assume v: "idToken req = Some t \<and> t \<noteq> [] \<and> verifyIdToken_result e t w = Inr d"
    and m: "\<not> truthy (body req ''status'')"
  from m have "update_status_handler e d req (record_call (VerifyIdToken t) w)
                 = (json 400 (Message ''Status is required.''),
                    record_call (VerifyIdToken t) w)"
    by (simp add: update_status_handler_def Let_def)
  with v show "update_status e req w
                 = (json 400 (Message ''Status is required.''),
                    record_call (VerifyIdToken t) w)"
    by (simp add: update_status_def verifyToken_def auth_verifyIdToken_def)
qed

theorem missing_field_rejected_witness:
  "\<not> truthy (body empty_req ''email'')
   \<and> signup demo_env empty_req demo_world
       = (json 400 (Message ''Email, password, and mobile are required.''), demo_world)
   \<and> idToken empty_req_tok = Some ''tok''
   \<and> \<not> truthy (body empty_req_tok ''loanType'') \<and> \<not> truthy (body empty_req_tok ''status'')
   \<and> apply_loan demo_env empty_req_tok demo_world
       = (json 400 (Message ''Missing required loan application fields.''),
          record_call (VerifyIdToken ''tok'') demo_world)
   \<and> update_status demo_env empty_req_tok demo_world
       = (json 400 (Message ''Status is required.''),
          record_call (VerifyIdToken ''tok'') demo_world)"
proof -
  have 1: "\<not> truthy (body empty_req ''email'')" by (simp add: empty_req_facts)
  have 2: "idToken empty_req_tok = Some ''tok'' \<and> ''tok'' \<noteq> []
             \<and> verifyIdToken_result demo_env ''tok'' demo_world = Inr \<lparr>uid = ''u1''\<rparr>"
    by (simp add: empty_req_facts demo_facts(2))
  have 3: "\<not> truthy (body empty_req_tok ''loanType'')"
    and 4: "\<not> truthy (body empty_req_tok ''status'')"
    by (simp_all add: empty_req_facts)
  note a = missing_field_rejected [of empty_req demo_env demo_world, THEN conjunct1, THEN mp,
             OF disjI1, OF 1]
  note b = missing_field_rejected [of empty_req_tok demo_env demo_world, THEN conjunct2,
             THEN spec, THEN spec, THEN mp, OF 2]
  note c = b [THEN conjunct1, THEN mp, OF disjI1, OF 3]
  note d = b [THEN conjunct2, THEN mp, OF 4]
  from 1 2 3 4 a c d show ?thesis by blast
qed

text \<open>
  Claim C8 as written promises 400 to every request that lacks a required field. On the
  protected routes a request that lacks the field and the token is answered with 401.
\<close>

theorem missing_field_unauthenticated_counterexample:
  "\<not> truthy (body empty_req ''status'') \<and> \<not> truthy (body empty_req ''loanType'')
   \<and> res_status (fst (update_status demo_env empty_req demo_world)) = 401
   \<and> res_status (fst (apply_loan demo_env empty_req demo_world)) = 401
   \<and> res_status (fst (update_status demo_env empty_req demo_world)) \<noteq> 400
   \<and> res_status (fst (apply_loan demo_env empty_req demo_world)) \<noteq> 400"
  by (simp add: update_status_def apply_loan_def verifyToken_def empty_req_facts)

end
